theory Spec2Isabelle
  imports Main "HOL-Library.Sublist" "HOL-Library.AList"
begin

section \<open>Font Squirrel translator: values and Python primitives\<close>

text \<open>
  The script \<^verbatim>\<open>scripts/font-squirrel-translator.py\<close> reads a list of JSON objects and
  rewrites each into a FontGet entry. The raw records are untyped (\<^verbatim>\<open>Dict[str, Any]\<close>),
  so the model carries JSON values and makes every attribute error, type error and key
  error of the Python a branch.

  A Python \<^verbatim>\<open>dict\<close> is an association list looked up with \<^const>\<open>map_of\<close>; the keys
  of a parsed JSON object are distinct. JSON numbers are integers here: a float behaves
  like an integer in every operation the script applies to a record (truth test,
  missing string and container methods). A string is a list of characters, each standing
  for a code point below 256 (ASCII and Latin-1), and \<^verbatim>\<open>lower()\<close> is Python's on that range.
\<close>

datatype json =
    JNull
  | JBool bool
  | JNum int
  | JStr string
  | JList "json list"
  | JObj "(string \<times> json) list"

type_synonym dict = "(string \<times> json) list"

datatype exn = AttributeError | TypeError | KeyError

text \<open>Python's truth test, as \<^verbatim>\<open>if x:\<close> and \<^verbatim>\<open>not x\<close> apply it.\<close>

fun truthy :: "json \<Rightarrow> bool" where
  "truthy JNull = False"
| "truthy (JBool b) = b"
| "truthy (JNum n) = (n \<noteq> 0)"
| "truthy (JStr s) = (s \<noteq> [])"
| "truthy (JList xs) = (xs \<noteq> [])"
| "truthy (JObj kvs) = (kvs \<noteq> [])"

text \<open>\<^verbatim>\<open>d.get(k, default)\<close> on a dict, and on a value that may not be one.\<close>

definition dict_get :: "dict \<Rightarrow> string \<Rightarrow> json \<Rightarrow> json" where
  "dict_get d k dflt = (case map_of d k of Some v \<Rightarrow> v | None \<Rightarrow> dflt)"

definition get :: "json \<Rightarrow> string \<Rightarrow> json \<Rightarrow> exn + json" where
  "get v k dflt = (case v of JObj d \<Rightarrow> Inr (dict_get d k dflt) | _ \<Rightarrow> Inl AttributeError)"

text \<open>\<^verbatim>\<open>for x in v\<close> and \<^verbatim>\<open>len(v)\<close>: lists, strings and dicts (by key) qualify.\<close>

definition py_iter :: "json \<Rightarrow> exn + json list" where
  "py_iter v =
     (case v of
        JList xs \<Rightarrow> Inr xs
      | JStr s \<Rightarrow> Inr (map (\<lambda>c. JStr [c]) s)
      | JObj kvs \<Rightarrow> Inr (map (\<lambda>kv. JStr (fst kv)) kvs)
      | _ \<Rightarrow> Inl TypeError)"

definition py_len :: "json \<Rightarrow> exn + int" where
  "py_len v =
     (case v of
        JList xs \<Rightarrow> Inr (int (length xs))
      | JStr s \<Rightarrow> Inr (int (length s))
      | JObj kvs \<Rightarrow> Inr (int (length kvs))
      | _ \<Rightarrow> Inl TypeError)"

text \<open>Sequencing of steps that may raise: the first exception ends the computation.\<close>

definition bind :: "exn + 'a \<Rightarrow> ('a \<Rightarrow> exn + 'b) \<Rightarrow> exn + 'b" where
  "bind m f = (case m of Inl e \<Rightarrow> Inl e | Inr x \<Rightarrow> f x)"

subsection \<open>Strings\<close>

text \<open>
  \<^verbatim>\<open>str.lower()\<close> on the code points below 256. The cased capitals there are \<^verbatim>\<open>A\<close> to \<^verbatim>\<open>Z\<close>
  (65 to 90) and the Latin-1 capitals U+00C0 to U+00DE without the multiplication sign
  U+00D7; each is mapped to the code point 32 higher, which sets the sixth bit, clear in
  both ranges. Every other character, the small letters U+00B5, U+00DF and U+00FF among
  them, is left as it is.
\<close>

definition is_upper :: "char \<Rightarrow> bool" where
  "is_upper c =
     (let n = (of_char c :: nat)
      in (65 \<le> n \<and> n \<le> 90) \<or> (192 \<le> n \<and> n \<le> 222 \<and> n \<noteq> 215))"

definition lower_char :: "char \<Rightarrow> char" where
  "lower_char c =
     (if is_upper c
      then Char (digit0 c) (digit1 c) (digit2 c) (digit3 c) (digit4 c) True (digit6 c) (digit7 c)
      else c)"

definition lower :: "string \<Rightarrow> string" where
  "lower s = map lower_char s"

text \<open>\<^verbatim>\<open>s.replace(a, b)\<close> for a one-character \<^verbatim>\<open>a\<close>; \<^verbatim>\<open>b\<close> is a character or a string.\<close>

definition replace_char :: "char \<Rightarrow> char \<Rightarrow> string \<Rightarrow> string" where
  "replace_char a b s = map (\<lambda>c. if c = a then b else c) s"

definition replace_str :: "char \<Rightarrow> string \<Rightarrow> string \<Rightarrow> string" where
  "replace_str a b s = concat (map (\<lambda>c. if c = a then b else [c]) s)"

text \<open>\<^verbatim>\<open>v.lower()\<close> on a value that may not be a string.\<close>

definition str_lower :: "json \<Rightarrow> exn + string" where
  "str_lower v = (case v of JStr s \<Rightarrow> Inr (lower s) | _ \<Rightarrow> Inl AttributeError)"

text \<open>\<^verbatim>\<open>sub in s\<close> on strings is \<^term>\<open>sublist sub s\<close>: a contiguous occurrence.\<close>

section \<open>Weight and style parsers\<close>

text \<open>
  \<^verbatim>\<open>_parse_weight\<close> and \<^verbatim>\<open>_parse_style\<close>. The branches are in the order of the source's
  \<^verbatim>\<open>if\<close>/\<^verbatim>\<open>elif\<close> chain.
\<close>

definition parse_weight :: "string \<Rightarrow> int" where
  "parse_weight variant_name =
     (let variant_lower = lower variant_name in
      if sublist ''thin'' variant_lower \<or> sublist ''hairline'' variant_lower then 100
      else if sublist ''extra-light'' variant_lower \<or> sublist ''ultra-light'' variant_lower
        then 200
      else if sublist ''light'' variant_lower then 300
      else if sublist ''regular'' variant_lower \<or> sublist ''normal'' variant_lower then 400
      else if sublist ''medium'' variant_lower then 500
      else if sublist ''semi-bold'' variant_lower \<or> sublist ''demi-bold'' variant_lower
        then 600
      else if sublist ''bold'' variant_lower then 700
      else if sublist ''extra-bold'' variant_lower \<or> sublist ''ultra-bold'' variant_lower
        then 800
      else if sublist ''black'' variant_lower \<or> sublist ''heavy'' variant_lower then 900
      else 400)"

definition parse_style :: "string \<Rightarrow> string" where
  "parse_style variant_name =
     (let variant_lower = lower variant_name in
      if sublist ''italic'' variant_lower \<or> sublist ''oblique'' variant_lower
      then ''italic'' else ''normal'')"

section \<open>Library functions taken as parameters\<close>

text \<open>
  Three functions of Python's standard library are not part of the script and are
  parameters of the model: \<^verbatim>\<open>datetime.fromisoformat\<close> (\<^term>\<open>None\<close> where it raises
  \<^verbatim>\<open>ValueError\<close>), \<^verbatim>\<open>datetime.isoformat\<close>, and the text that an f-string gives for a
  value that is not a string (\<^verbatim>\<open>str_of\<close>). None of them can raise on the arguments
  the script passes, apart from the parse failure.
\<close>

record 'dt pylib =
  fromisoformat :: "string \<Rightarrow> 'dt option"
  isoformat :: "'dt \<Rightarrow> string"
  str_of :: "json \<Rightarrow> string"

text \<open>The text of \<^verbatim>\<open>{v}\<close> inside an f-string: a string is inserted as it is.\<close>

definition format_value :: "'dt pylib \<Rightarrow> json \<Rightarrow> string" where
  "format_value L v = (case v of JStr s \<Rightarrow> s | _ \<Rightarrow> str_of L v)"

section \<open>Output data\<close>

record variant =
  v_name :: string
  v_weight :: int
  v_style :: string
  v_subsets :: "string list"
  v_files :: "(string \<times> json) list"

record font_entry =
  name :: string
  family :: string
  license :: json
  license_url :: json
  designer :: json
  foundry :: json
  version :: json
  description :: json
  categories :: "json list"
  tags :: "string list"
  popularity :: int
  last_modified :: json
  metadata_url :: string
  source_url :: string
  variants :: "variant list"
  unicode_ranges :: "string list"
  languages :: "string list"
  sample_text :: string

record source_info =
  src_name :: string
  src_description :: string
  src_url :: string
  api_endpoint :: string
  src_version :: string
  last_updated :: string
  total_fonts :: nat

record source_data =
  info :: source_info
  fonts :: "(string \<times> font_entry) list"

section \<open>Variant synthesizer\<close>

text \<open>
  \<^verbatim>\<open>_extract_variants\<close>. One entry of an explicit \<^verbatim>\<open>font_files\<close> list gives a variant,
  nothing (no \<^verbatim>\<open>ttf_url\<close> and no \<^verbatim>\<open>otf_url\<close>), or an exception: \<^verbatim>\<open>file_info.get\<close> needs a
  dict and \<^verbatim>\<open>variant_name.lower()\<close> in \<^verbatim>\<open>_parse_weight\<close> needs a string.
\<close>

definition file_variant :: "json \<Rightarrow> exn + variant option" where
  "file_variant file_info =
     bind (get file_info ''name'' (JStr ''Regular'')) (\<lambda>variant_name.
       case variant_name of
         JStr nm \<Rightarrow>
           bind (get file_info ''ttf_url'' JNull) (\<lambda>ttf.
           bind (get file_info ''otf_url'' JNull) (\<lambda>otf.
             let files = (if truthy ttf then [(''ttf'', ttf)] else [])
                       @ (if truthy otf then [(''otf'', otf)] else [])
             in Inr (if files \<noteq> []
                     then Some \<lparr> v_name = nm, v_weight = parse_weight nm,
                                 v_style = parse_style nm, v_subsets = [''latin''],
                                 v_files = files \<rparr>
                     else None)))
       | _ \<Rightarrow> Inl AttributeError)"

fun files_loop :: "json list \<Rightarrow> variant list \<Rightarrow> exn + variant list" where
  "files_loop [] vs = Inr vs"
| "files_loop (file_info # rest) vs =
     (case file_variant file_info of
        Inl e \<Rightarrow> Inl e
      | Inr None \<Rightarrow> files_loop rest vs
      | Inr (Some v) \<Rightarrow> files_loop rest (vs @ [v]))"

definition variant_patterns :: "(string \<times> int \<times> string) list" where
  "variant_patterns =
     [(''Regular'', 400, ''normal''),
      (''Bold'', 700, ''normal''),
      (''Italic'', 400, ''italic''),
      (''Bold Italic'', 700, ''italic''),
      (''Light'', 300, ''normal''),
      (''Medium'', 500, ''normal''),
      (''Semi Bold'', 600, ''normal''),
      (''Extra Bold'', 800, ''normal''),
      (''Black'', 900, ''normal'')]"

text \<open>The slug that stands in for a missing \<^verbatim>\<open>family_urlname\<close>.\<close>

definition default_urlname :: "string \<Rightarrow> string" where
  "default_urlname family_name = replace_char CHR '' '' CHR ''-'' (lower family_name)"

definition pattern_variant ::
  "'dt pylib \<Rightarrow> dict \<Rightarrow> string \<Rightarrow> string \<times> int \<times> string \<Rightarrow> variant" where
  "pattern_variant L font_data family_name pat =
     (case pat of (variant_name, weight, style) \<Rightarrow>
        let family_urlname =
              dict_get font_data ''family_urlname'' (JStr (default_urlname family_name));
            variant_urlname = replace_char CHR '' '' CHR ''-'' (lower variant_name);
            ttf_url = ''https://www.fontsquirrel.com/fonts/download/''
                      @ format_value L family_urlname @ ''/'' @ variant_urlname
        in \<lparr> v_name = family_name @ '' '' @ variant_name, v_weight = weight,
             v_style = style, v_subsets = [''latin''],
             v_files = [(''ttf'', JStr ttf_url)] \<rparr>)"

definition extract_variants :: "'dt pylib \<Rightarrow> dict \<Rightarrow> exn + variant list" where
  "extract_variants L font_data =
     (let font_files = dict_get font_data ''font_files'' (JList []) in
      if truthy font_files then
        bind (py_iter font_files) (\<lambda>items.
        bind (files_loop items []) (\<lambda>vs. Inr (take 5 vs)))
      else
        (case dict_get font_data ''family_name'' (JStr []) of
           JStr family_name \<Rightarrow>
             Inr (take 5 (map (pattern_variant L font_data family_name) variant_patterns))
         | _ \<Rightarrow> Inl AttributeError))"

section \<open>Heuristic scorer\<close>

text \<open>\<^verbatim>\<open>_calculate_popularity\<close>; \<^verbatim>\<open>len(font_files)\<close> raises on a value without a length.\<close>

definition calculate_popularity :: "dict \<Rightarrow> exn + int" where
  "calculate_popularity font_data =
     (let score = 50;
          score = (if truthy (dict_get font_data ''is_free'' (JBool False))
                   then score + 20 else score);
          score = (if truthy (dict_get font_data ''description'' JNull)
                      \<or> truthy (dict_get font_data ''short_description'' JNull)
                   then score + 10 else score);
          score = (if truthy (dict_get font_data ''designer'' JNull)
                   then score + 10 else score);
          score = (if truthy (dict_get font_data ''foundry'' JNull)
                   then score + 5 else score);
          font_files = dict_get font_data ''font_files'' (JList [])
      in bind (py_len font_files) (\<lambda>n.
           let score = (if n > 1 then score + min (n * 2) 15 else score)
           in Inr (min score 100)))"

section \<open>Unicode ranges and languages\<close>

definition classification_name :: "dict \<Rightarrow> exn + string" where
  "classification_name font_data =
     bind (get (dict_get font_data ''classification'' (JObj [])) ''name'' (JStr []))
       str_lower"

definition latin_like :: "string \<Rightarrow> bool" where
  "latin_like cn = (sublist ''latin'' cn \<or> sublist ''sans'' cn \<or> sublist ''serif'' cn)"

definition extract_unicode_ranges :: "dict \<Rightarrow> exn + string list" where
  "extract_unicode_ranges font_data =
     bind (classification_name font_data) (\<lambda>cn.
       Inr ([''U+0000-00FF''] @ (if latin_like cn then [''U+0100-017F''] else [])))"

definition extract_languages :: "dict \<Rightarrow> exn + string list" where
  "extract_languages font_data =
     bind (classification_name font_data) (\<lambda>cn.
       Inr ([''Latin''] @ (if latin_like cn then [''Latin Extended''] else [])))"

section \<open>Field mapper\<close>

text \<open>
  The key under which an entry is stored: \<^verbatim>\<open>squirrel.\<close> followed by the lowered family
  name with spaces, then underscores, replaced by hyphens. The source writes the
  expression out twice, in \<^verbatim>\<open>transform_font\<close> and in \<^verbatim>\<open>translate\<close>.
\<close>

definition font_id :: "string \<Rightarrow> string" where
  "font_id family_name =
     ''squirrel.''
     @ replace_char CHR ''_'' CHR ''-'' (replace_char CHR '' '' CHR ''-'' (lower family_name))"

text \<open>
  The \<^verbatim>\<open>last_modified\<close> block of \<^verbatim>\<open>transform_font\<close>: only a truthy \<^verbatim>\<open>updated_at\<close> is
  parsed; the bare \<^verbatim>\<open>except\<close> turns the attribute error of a value that is not a string
  and the parse failure into the empty string.
\<close>

definition parse_last_modified :: "'dt pylib \<Rightarrow> json \<Rightarrow> json" where
  "parse_last_modified L updated_at =
     (if truthy updated_at then
        (case updated_at of
           JStr s \<Rightarrow>
             (case fromisoformat L (replace_str CHR ''Z'' ''+00:00'' s) of
                Some dt \<Rightarrow> JStr (isoformat L dt @ ''Z'')
              | None \<Rightarrow> JStr [])
         | _ \<Rightarrow> JStr [])
      else updated_at)"

text \<open>
  The body of the \<^verbatim>\<open>try\<close> in \<^verbatim>\<open>transform_font\<close>, for a record that is a dict, in two
  parts: \<^verbatim>\<open>map_fields\<close> is the body from the license block on, for a family name \<^verbatim>\<open>fam\<close>
  that is a non-empty string; \<^verbatim>\<open>transform_fields\<close> is the guard before it.
  \<^term>\<open>Inr None\<close> is the early \<^verbatim>\<open>return None\<close>, \<^term>\<open>Inl e\<close> an exception on its way to
  the handler.
\<close>

definition map_fields :: "'dt pylib \<Rightarrow> dict \<Rightarrow> string \<Rightarrow> exn + font_entry option" where
  "map_fields L font_data fam =
     (let license_info = dict_get font_data ''license'' (JObj []) in
      bind (get license_info ''name'' (JStr ''Unknown'')) (\<lambda>license_type.
      bind (get license_info ''url'' (JStr [])) (\<lambda>license_url.
      let designer = dict_get font_data ''designer'' (JStr []);
          foundry = dict_get font_data ''foundry'' (JStr []);
          classification = dict_get font_data ''classification'' (JObj [])
      in
      bind (get classification ''name'' (JStr ''Other'')) (\<lambda>category.
      bind (get classification ''name'' JNull) (\<lambda>cname.
      bind (if truthy cname
            then bind (str_lower cname)
                   (\<lambda>l. Inr [replace_char CHR '' '' CHR ''-'' l])
            else Inr []) (\<lambda>tags0.
      let is_free = dict_get font_data ''is_free'' (JBool False);
          tags = tags0 @ [if truthy is_free then ''free'' else ''commercial''];
          description = dict_get font_data ''description'' (JStr []);
          short = dict_get font_data ''short_description'' JNull;
          description =
            (if \<not> truthy description \<and> truthy short then short else description);
          version = dict_get font_data ''version'' (JStr ''1.0'');
          last_modified =
            parse_last_modified L (dict_get font_data ''updated_at'' (JStr []));
          family_urlname =
            dict_get font_data ''family_urlname'' (JStr (default_urlname fam));
          source_url =
            ''https://www.fontsquirrel.com/fonts/'' @ format_value L family_urlname
      in
      bind (extract_variants L font_data) (\<lambda>variants.
      bind (calculate_popularity font_data) (\<lambda>popularity.
      bind (extract_unicode_ranges font_data) (\<lambda>ranges.
      bind (extract_languages font_data) (\<lambda>langs.
        Inr (Some
          \<lparr> name = fam,
            family = fam,
            license = license_type,
            license_url = license_url,
            designer = designer,
            foundry = foundry,
            version = version,
            description = description,
            categories = (if category \<noteq> JStr ''Other'' then [category] else []),
            tags = tags,
            popularity = popularity,
            last_modified = last_modified,
            metadata_url = ''https://www.fontsquirrel.com/api/familyinfo/''
                           @ format_value L family_urlname,
            source_url = source_url,
            variants = variants,
            unicode_ranges = ranges,
            languages = langs,
            sample_text = ''The quick brown fox jumps over the lazy dog'' \<rparr>)
      ))))))))))"

definition transform_fields :: "'dt pylib \<Rightarrow> dict \<Rightarrow> exn + font_entry option" where
  "transform_fields L font_data =
     (let family_name = dict_get font_data ''family_name'' (JStr []) in
      if \<not> truthy family_name then Inr None
      else
        (case family_name of
           JStr fam \<Rightarrow> map_fields L font_data fam
         | _ \<Rightarrow> Inl AttributeError))"

text \<open>
  \<^verbatim>\<open>transform_font\<close>: the handler absorbs every exception of the body and returns
  \<^verbatim>\<open>None\<close>. On a record that is not a dict the first \<^verbatim>\<open>font_data.get\<close> raises, and so does
  the one in the handler's message, so that exception leaves the function.
\<close>

definition transform_font :: "'dt pylib \<Rightarrow> json \<Rightarrow> exn + font_entry option" where
  "transform_font L font_data =
     (case font_data of
        JObj d \<Rightarrow> Inr (case transform_fields L d of Inl e \<Rightarrow> None | Inr r \<Rightarrow> r)
      | _ \<Rightarrow> Inl AttributeError)"

section \<open>Aggregator\<close>

text \<open>\<^verbatim>\<open>v[k]\<close> with a string key.\<close>

definition get_item :: "json \<Rightarrow> string \<Rightarrow> exn + json" where
  "get_item v k =
     (case v of
        JObj d \<Rightarrow> (case map_of d k of Some x \<Rightarrow> Inr x | None \<Rightarrow> Inl KeyError)
      | _ \<Rightarrow> Inl TypeError)"

record loop_state =
  acc_fonts :: "(string \<times> font_entry) list"
  processed :: nat
  skipped :: nat

text \<open>
  One iteration of the loop in \<^verbatim>\<open>translate\<close>. \<^verbatim>\<open>fonts[font_id] = transformed\<close> is
  \<^const>\<open>AList.update\<close>: a key already present keeps its place and takes the new value,
  a new key goes to the end. An exception anywhere in the iteration counts the record
  as skipped.
\<close>

definition translate_step :: "'dt pylib \<Rightarrow> loop_state \<Rightarrow> json \<Rightarrow> loop_state" where
  "translate_step L st font_data =
     (case transform_font L font_data of
        Inl e \<Rightarrow> st\<lparr>skipped := skipped st + 1\<rparr>
      | Inr None \<Rightarrow> st\<lparr>skipped := skipped st + 1\<rparr>
      | Inr (Some transformed) \<Rightarrow>
          (case bind (get_item font_data ''family_name'') str_lower of
             Inl e \<Rightarrow> st\<lparr>skipped := skipped st + 1\<rparr>
           | Inr l \<Rightarrow>
               st\<lparr>acc_fonts :=
                    AList.update
                      (''squirrel.''
                       @ replace_char CHR ''_'' CHR ''-'' (replace_char CHR '' '' CHR ''-'' l))
                      transformed (acc_fonts st),
                  processed := processed st + 1\<rparr>))"

definition translate_loop :: "'dt pylib \<Rightarrow> json list \<Rightarrow> loop_state" where
  "translate_loop L raw_fonts =
     foldl (translate_step L) \<lparr>acc_fonts = [], processed = 0, skipped = 0\<rparr> raw_fonts"

text \<open>
  The header. \<^verbatim>\<open>now\<close> stands for \<^verbatim>\<open>datetime.utcnow().isoformat()\<close> at the moment the
  document is built.
\<close>

definition header :: "string \<Rightarrow> nat \<Rightarrow> source_info" where
  "header now n =
     \<lparr> src_name = ''Font Squirrel'',
       src_description = ''Free and commercial fonts from Font Squirrel'',
       src_url = ''https://www.fontsquirrel.com'',
       api_endpoint = ''https://www.fontsquirrel.com/api/fontlist/all'',
       src_version = ''1.0'',
       last_updated = now @ ''Z'',
       total_fonts = n \<rparr>"

definition create_empty_source :: "string \<Rightarrow> source_data" where
  "create_empty_source now = \<lparr> info = header now 0, fonts = [] \<rparr>"

text \<open>\<^verbatim>\<open>translate\<close>, with the result of \<^verbatim>\<open>fetch_fonts\<close> as its input.\<close>

definition translate :: "'dt pylib \<Rightarrow> string \<Rightarrow> json list \<Rightarrow> source_data" where
  "translate L now raw_fonts =
     (if raw_fonts = [] then create_empty_source now
      else
        (let st = translate_loop L raw_fonts
         in \<lparr> info = header now (length (acc_fonts st)), fonts = acc_fonts st \<rparr>))"

text \<open>
  A small instance of the library parameters, to run the model on concrete records: it
  parses one timestamp and renders values that are not strings as \<^verbatim>\<open>?\<close>.
\<close>

definition toy_lib :: "string pylib" where
  "toy_lib =
     \<lparr> fromisoformat =
         (\<lambda>s. if s = ''2024-01-02T03:04:05+00:00'' then Some s else None),
       isoformat = (\<lambda>dt. dt),
       str_of = (\<lambda>v. ''?'') \<rparr>"

section \<open>Terms used in the statements\<close>

text \<open>
  The entry a raw record is transformed to, if \<^verbatim>\<open>transform_font\<close> returns one; the entries
  of the successfully transformed records of a fetched sequence, in order; and the key
  under which the loop stores an entry.
\<close>

definition transformed :: "'dt pylib \<Rightarrow> json \<Rightarrow> font_entry option" where
  "transformed L font_data =
     (case transform_font L font_data of Inr (Some e) \<Rightarrow> Some e | _ \<Rightarrow> None)"

definition successes :: "'dt pylib \<Rightarrow> json list \<Rightarrow> font_entry list" where
  "successes L raw_fonts = List.map_filter (transformed L) raw_fonts"

definition entry_key :: "font_entry \<Rightarrow> string" where
  "entry_key e = font_id (family e)"

text \<open>The record of the end-to-end example.\<close>

definition test_font_record :: json where
  "test_font_record =
     JObj [(''family_name'', JStr ''Test Font''), (''is_free'', JBool True),
           (''designer'', JStr ''Jane'')]"

section \<open>Basic facts\<close>

lemmas str_eval =
  lower_def lower_char_def is_upper_def replace_char_def replace_str_def sublist_Cons_right

text \<open>The capitals have the sixth bit clear, so \<^const>\<open>lower_char\<close> adds 32 to them.\<close>

lemma is_upper_bit5: "is_upper c \<Longrightarrow> \<not> digit5 c"
proof (cases c)
  case (Char b0 b1 b2 b3 b4 b5 b6 b7)
  assume u: "is_upper c"
  show ?thesis
  proof
    assume "digit5 c"
    with Char have b5: "b5" by simp
    from u Char b5 show False
      by (cases b6; cases b7)
        (simp_all add: is_upper_def Let_def of_char_def horner_sum_eq_sum_funpow,
         simp_all split: if_splits add: of_bool_def)
  qed
qed

lemma of_char_lower_char:
  "(of_char (lower_char c) :: nat) = (if is_upper c then of_char c + 32 else of_char c)"
proof (cases "is_upper c")
  case False
  then show ?thesis by (simp add: lower_char_def)
next
  case True
  then have b5: "\<not> digit5 c" by (rule is_upper_bit5)
  obtain b0 b1 b2 b3 b4 b5' b6 b7 where c: "c = Char b0 b1 b2 b3 b4 b5' b6 b7"
    by (cases c)
  with b5 have "\<not> b5'" by simp
  with c have c': "c = Char b0 b1 b2 b3 b4 False b6 b7" by simp
  have "lower_char c = Char b0 b1 b2 b3 b4 True b6 b7"
    using True by (simp add: lower_char_def c')
  then show ?thesis
    using True by (simp add: c')
qed

lemma lower_char_examples:
  "lower_char CHR ''A'' = CHR ''a''" "lower_char CHR ''Z'' = CHR ''z''"
  "lower_char CHR ''a'' = CHR ''a''" "lower_char CHR ''_'' = CHR ''_''"
  "lower_char (CHR 0xC0) = CHR 0xE0" "lower_char (CHR 0xC9) = CHR 0xE9"
  "lower_char (CHR 0xDE) = CHR 0xFE" "lower_char (CHR 0xD7) = CHR 0xD7"
  "lower_char (CHR 0xDF) = CHR 0xDF" "lower_char (CHR 0xFF) = CHR 0xFF"
  by (simp_all add: lower_char_def is_upper_def)

lemma bind_Inr_iff: "bind m f = Inr y \<longleftrightarrow> (\<exists>x. m = Inr x \<and> f x = Inr y)"
  by (cases m) (simp_all add: bind_def)

section \<open>Properties of the parsers\<close>

lemma sublist_bold_of_extra: "sublist ''extra-bold'' s \<Longrightarrow> sublist ''bold'' s"
proof -
  assume "sublist ''extra-bold'' s"
  then obtain ps ss where "s = ps @ ''extra-bold'' @ ss"
    by (auto simp: sublist_def)
  then have "s = (ps @ ''extra-'') @ ''bold'' @ ss" by simp
  then show ?thesis unfolding sublist_def by blast
qed

lemma sublist_bold_of_ultra: "sublist ''ultra-bold'' s \<Longrightarrow> sublist ''bold'' s"
proof -
  assume "sublist ''ultra-bold'' s"
  then obtain ps ss where "s = ps @ ''ultra-bold'' @ ss"
    by (auto simp: sublist_def)
  then have "s = (ps @ ''ultra-'') @ ''bold'' @ ss" by simp
  then show ?thesis unfolding sublist_def by blast
qed

text \<open>
  C1, at the input where the code and the specification part: on \<^verbatim>\<open>"Extra Bold Italic"\<close> the weight
  parser returns 700 (the lowered name contains \<^verbatim>\<open>"bold"\<close>, which is tested before
  \<^verbatim>\<open>"extra-bold"\<close>, and it has a space where the pattern has a hyphen), not 800; the
  style is \<^verbatim>\<open>"italic"\<close>. \<^verbatim>\<open>"Regular"\<close> gives 400 and \<^verbatim>\<open>"normal"\<close>, \<^verbatim>\<open>"Funky"\<close> gives 400.
\<close>

theorem parse_weight_extra_bold_italic:
  "parse_weight ''Extra Bold Italic'' = 700
   \<and> parse_style ''Extra Bold Italic'' = ''italic''
   \<and> parse_weight ''Regular'' = 400 \<and> parse_style ''Regular'' = ''normal''
   \<and> parse_weight ''Funky'' = 400"
  by (simp add: parse_weight_def parse_style_def str_eval)

text \<open>
  C9: the weight parser never returns 800. A name whose lowered form contains
  \<^verbatim>\<open>"extra-bold"\<close> or \<^verbatim>\<open>"ultra-bold"\<close> contains \<^verbatim>\<open>"bold"\<close>, and that test comes first.
\<close>

theorem parse_weight_never_800: "parse_weight variant_name \<noteq> 800"
  using sublist_bold_of_extra [of "lower variant_name"]
    sublist_bold_of_ultra [of "lower variant_name"]
  by (auto simp: parse_weight_def Let_def)

section \<open>Slug keys\<close>

lemma replace_char_absent: "a \<notin> set s \<Longrightarrow> replace_char a b s = s"
  by (induction s) (auto simp: replace_char_def)

text \<open>A Latin-1 capital and its small letter give the same key, as in the code.\<close>

lemma font_id_latin1_capital: "font_id [CHR 0xC9] = font_id [CHR 0xE9]"
  by (simp add: font_id_def str_eval)

text \<open>
  C3, as stated, fails: the key is a function of the family name, but not an injective
  one. \<^verbatim>\<open>"Open Sans"\<close> and \<^verbatim>\<open>"open sans"\<close> are distinct names with the same key.
\<close>

theorem font_id_not_injective:
  "''Open Sans'' \<noteq> ''open sans'' \<and> font_id ''Open Sans'' = font_id ''open sans''"
  by (simp add: font_id_def str_eval)

text \<open>
  C3, amended: \<^verbatim>\<open>"Open Sans"\<close> has the key \<^verbatim>\<open>squirrel.open-sans\<close> and \<^verbatim>\<open>"Foo_Bar"\<close> the key
  \<^verbatim>\<open>squirrel.foo-bar\<close>; two names have the same key exactly when they agree after
  lowering and replacing spaces and underscores by hyphens; so the derivation is
  injective on the names that the normalisation leaves unchanged (no upper-case letter,
  no space, no underscore).
\<close>

theorem font_id_injective_on_normalised:
  "font_id ''Open Sans'' = ''squirrel.open-sans''
   \<and> font_id ''Foo_Bar'' = ''squirrel.foo-bar''
   \<and> (font_id a = font_id b \<longleftrightarrow>
        replace_char CHR ''_'' CHR ''-'' (replace_char CHR '' '' CHR ''-'' (lower a))
        = replace_char CHR ''_'' CHR ''-'' (replace_char CHR '' '' CHR ''-'' (lower b)))
   \<and> (lower a = a \<and> lower b = b
        \<and> CHR '' '' \<notin> set a \<union> set b \<and> CHR ''_'' \<notin> set a \<union> set b
        \<longrightarrow> (font_id a = font_id b \<longleftrightarrow> a = b))"
proof -
  have ex: "font_id ''Open Sans'' = ''squirrel.open-sans''"
    "font_id ''Foo_Bar'' = ''squirrel.foo-bar''"
    by (simp_all add: font_id_def str_eval)
  have eq: "font_id a = font_id b \<longleftrightarrow>
        replace_char CHR ''_'' CHR ''-'' (replace_char CHR '' '' CHR ''-'' (lower a))
        = replace_char CHR ''_'' CHR ''-'' (replace_char CHR '' '' CHR ''-'' (lower b))"
    by (simp add: font_id_def)
  have inj: "font_id a = font_id b \<longleftrightarrow> a = b"
    if "lower a = a" "lower b = b" "CHR '' '' \<notin> set a \<union> set b" "CHR ''_'' \<notin> set a \<union> set b"
    using that by (simp add: font_id_def replace_char_absent)
  from ex eq inj show ?thesis by blast
qed

theorem font_id_injective_on_normalised_witness:
  "lower ''open-sans'' = ''open-sans'' \<and> lower ''foo-bar'' = ''foo-bar''
   \<and> CHR '' '' \<notin> set ''open-sans'' \<union> set ''foo-bar''
   \<and> CHR ''_'' \<notin> set ''open-sans'' \<union> set ''foo-bar''
   \<and> font_id ''open-sans'' \<noteq> font_id ''foo-bar''"
  using font_id_injective_on_normalised [of "''open-sans''" "''foo-bar''"]
  by (simp add: str_eval)

section \<open>The end-to-end example\<close>

lemmas model_eval =
  translate_def translate_loop_def translate_step_def transform_font_def
  transform_fields_def map_fields_def dict_get_def get_def bind_def
  get_item_def str_lower_def header_def extract_variants_def variant_patterns_def
  pattern_variant_def calculate_popularity_def py_len_def py_iter_def file_variant_def
  extract_unicode_ranges_def extract_languages_def classification_name_def latin_like_def
  default_urlname_def format_value_def parse_last_modified_def parse_weight_def
  parse_style_def Let_def

text \<open>
  C6: for the one record \<^verbatim>\<open>{family_name: "Test Font", is_free: true, designer: "Jane"}\<close>
  the document has exactly one entry, under the key \<^verbatim>\<open>squirrel.test-font\<close>; its tags
  contain \<^verbatim>\<open>free\<close>, it has five variants, each with the subsets \<^verbatim>\<open>["latin"]\<close>, and its
  popularity is 80. This holds whatever the library parameters and the clock are.
\<close>

theorem test_font_end_to_end:
  "\<exists>e. fonts (translate L now [test_font_record]) = [(''squirrel.test-font'', e)]
      \<and> total_fonts (info (translate L now [test_font_record])) = 1
      \<and> ''free'' \<in> set (tags e)
      \<and> length (variants e) = 5
      \<and> map v_subsets (variants e)
          = [[''latin''], [''latin''], [''latin''], [''latin''], [''latin'']]
      \<and> popularity e = 80"
  by (simp add: model_eval test_font_record_def str_eval)

section \<open>Popularity score\<close>

text \<open>
  C4, as stated, fails in its last part: a record with every bonus condition true and
  exactly two font files scores 50 + 20 + 10 + 10 + 5 + min(2 * 2, 15) = 99, not 100.
\<close>

theorem all_bonuses_two_files_scores_99:
  "calculate_popularity
     [(''family_name'', JStr ''Two''), (''is_free'', JBool True),
      (''description'', JStr ''A face''), (''designer'', JStr ''Jane''),
      (''foundry'', JStr ''Acme''),
      (''font_files'',
         JList [JObj [(''name'', JStr ''Regular''), (''ttf_url'', JStr ''r.ttf'')],
                JObj [(''name'', JStr ''Bold''), (''ttf_url'', JStr ''b.ttf'')]])]
   = Inr 99"
  by (simp add: calculate_popularity_def dict_get_def py_len_def bind_def)

text \<open>
  C4, amended: the scorer raises exactly when \<^verbatim>\<open>font_files\<close> has no length; otherwise the
  score is base 50 plus the independent bonuses (20 for a truthy \<^verbatim>\<open>is_free\<close>, 10 for a
  description or short description, 10 for a designer, 5 for a foundry, min(2n, 15) for
  n > 1 font files), clamped at 100. Every score returned lies in [0, 100]. A record
  with every bonus condition true scores 100 when it lists at least three font files and
  99 when it lists exactly two.
\<close>

theorem calculate_popularity_score:
  "calculate_popularity d =
     (case py_len (dict_get d ''font_files'' (JList [])) of
        Inl e \<Rightarrow> Inl e
      | Inr n \<Rightarrow>
          Inr (min
            (50
             + (if truthy (dict_get d ''is_free'' (JBool False)) then 20 else 0)
             + (if truthy (dict_get d ''description'' JNull)
                   \<or> truthy (dict_get d ''short_description'' JNull) then 10 else 0)
             + (if truthy (dict_get d ''designer'' JNull) then 10 else 0)
             + (if truthy (dict_get d ''foundry'' JNull) then 5 else 0)
             + (if 1 < n then min (n * 2) 15 else 0)) 100))
   \<and> (\<forall>s. calculate_popularity d = Inr s \<longrightarrow> 0 \<le> s \<and> s \<le> 100)
   \<and> (truthy (dict_get d ''is_free'' (JBool False))
        \<and> (truthy (dict_get d ''description'' JNull)
             \<or> truthy (dict_get d ''short_description'' JNull))
        \<and> truthy (dict_get d ''designer'' JNull)
        \<and> truthy (dict_get d ''foundry'' JNull)
      \<longrightarrow> (\<forall>n. py_len (dict_get d ''font_files'' (JList [])) = Inr n \<longrightarrow>
             (3 \<le> n \<longrightarrow> calculate_popularity d = Inr 100)
           \<and> (n = 2 \<longrightarrow> calculate_popularity d = Inr 99)))"
proof -
  let ?len = "py_len (dict_get d ''font_files'' (JList []))"
  have eq: "calculate_popularity d =
     (case ?len of
        Inl e \<Rightarrow> Inl e
      | Inr n \<Rightarrow>
          Inr (min
            (50
             + (if truthy (dict_get d ''is_free'' (JBool False)) then 20 else 0)
             + (if truthy (dict_get d ''description'' JNull)
                   \<or> truthy (dict_get d ''short_description'' JNull) then 10 else 0)
             + (if truthy (dict_get d ''designer'' JNull) then 10 else 0)
             + (if truthy (dict_get d ''foundry'' JNull) then 5 else 0)
             + (if 1 < n then min (n * 2) 15 else 0)) 100))"
    by (cases ?len) (auto simp: calculate_popularity_def bind_def Let_def)
  have range: "0 \<le> s \<and> s \<le> 100" if "calculate_popularity d = Inr s" for s
  proof (cases ?len)
    case (Inl e)
    with that eq show ?thesis by simp
  next
    case (Inr n)
    with that eq show ?thesis by (auto split: if_splits)
  qed
  have full: "(3 \<le> n \<longrightarrow> calculate_popularity d = Inr 100)
           \<and> (n = 2 \<longrightarrow> calculate_popularity d = Inr 99)"
    if "truthy (dict_get d ''is_free'' (JBool False))"
      "truthy (dict_get d ''description'' JNull)
             \<or> truthy (dict_get d ''short_description'' JNull)"
      "truthy (dict_get d ''designer'' JNull)" "truthy (dict_get d ''foundry'' JNull)"
      "?len = Inr n" for n
    using that eq by auto
  from eq range full show ?thesis by blast
qed

theorem calculate_popularity_score_witness:
  "calculate_popularity
     [(''is_free'', JBool True), (''short_description'', JStr ''A face''),
      (''designer'', JStr ''Jane''), (''foundry'', JStr ''Acme''),
      (''font_files'', JList [JObj [], JObj [], JObj []])]
   = Inr 100"
  using calculate_popularity_score
    [of "[(''is_free'', JBool True), (''short_description'', JStr ''A face''),
      (''designer'', JStr ''Jane''), (''foundry'', JStr ''Acme''),
      (''font_files'', JList [JObj [], JObj [], JObj []])]"]
  by (simp add: dict_get_def py_len_def)

section \<open>Variant lists\<close>

text \<open>
  C5: whenever \<^verbatim>\<open>_extract_variants\<close> returns, the list has at most five variants, from an
  explicit \<^verbatim>\<open>font_files\<close> list of any length as well as from the fallback table; and the
  fallback branch (no truthy \<^verbatim>\<open>font_files\<close>, a family name that is a string or missing)
  always returns, with exactly five of its nine patterns. The function raises only on
  ill-typed input: a \<^verbatim>\<open>font_files\<close> that cannot be iterated, an entry that is not a dict,
  a variant name or family name that is not a string.
\<close>

theorem extract_variants_at_most_5:
  "(\<forall>vs. extract_variants L d = Inr vs \<longrightarrow> length vs \<le> 5)
   \<and> (\<forall>fam. \<not> truthy (dict_get d ''font_files'' (JList []))
           \<and> dict_get d ''family_name'' (JStr []) = JStr fam
         \<longrightarrow> (\<exists>vs. extract_variants L d = Inr vs \<and> length vs = 5))"
proof -
  have bound: "length vs \<le> 5" if "extract_variants L d = Inr vs" for vs
    using that
    by (auto simp: extract_variants_def Let_def bind_Inr_iff split: if_splits json.splits)
  have fallback: "\<exists>vs. extract_variants L d = Inr vs \<and> length vs = 5"
    if "\<not> truthy (dict_get d ''font_files'' (JList []))"
      "dict_get d ''family_name'' (JStr []) = JStr fam" for fam
    using that by (simp add: extract_variants_def variant_patterns_def)
  from bound fallback show ?thesis by blast
qed

theorem extract_variants_at_most_5_witness:
  "extract_variants toy_lib
     [(''family_name'', JStr ''Twenty''),
      (''font_files'',
         JList (replicate 20 (JObj [(''name'', JStr ''Bold''), (''ttf_url'', JStr ''b.ttf'')])))]
   = Inr (replicate 5
       \<lparr>v_name = ''Bold'', v_weight = 700, v_style = ''normal'', v_subsets = [''latin''],
          v_files = [(''ttf'', JStr ''b.ttf'')]\<rparr>)
   \<and> length (replicate 5
       \<lparr>v_name = ''Bold'', v_weight = 700, v_style = ''normal'', v_subsets = [''latin''],
          v_files = [(''ttf'', JStr ''b.ttf'')]\<rparr>) \<le> 5"
proof -
  let ?d = "[(''family_name'', JStr ''Twenty''),
      (''font_files'',
         JList (replicate 20 (JObj [(''name'', JStr ''Bold''), (''ttf_url'', JStr ''b.ttf'')])))]"
  let ?v = "\<lparr>v_name = ''Bold'', v_weight = 700, v_style = ''normal'', v_subsets = [''latin''],
          v_files = [(''ttf'', JStr ''b.ttf'')]\<rparr>"
  have fv: "file_variant (JObj [(''name'', JStr ''Bold''), (''ttf_url'', JStr ''b.ttf'')])
            = Inr (Some ?v)"
    by (simp add: file_variant_def get_def dict_get_def bind_def parse_weight_def
        parse_style_def str_eval)
  have run: "extract_variants toy_lib ?d = Inr (replicate 5 ?v)"
    by (simp add: extract_variants_def dict_get_def py_iter_def bind_def fv eval_nat_numeral)
  from extract_variants_at_most_5 [of toy_lib ?d] run
  show ?thesis by simp
qed

section \<open>The aggregation loop\<close>

text \<open>
  What a successful transform tells about the record, and the state of the loop in
  \<^verbatim>\<open>translate\<close> in terms of the successfully transformed records: each of them is
  stored under its key, in order, and counted as processed; every other one is counted
  as skipped.
\<close>

lemma map_fields_SomeD:
  assumes "map_fields L d fam = Inr (Some e)"
  shows "family e = fam \<and> name e = fam
     \<and> last_modified e = parse_last_modified L (dict_get d ''updated_at'' (JStr []))
     \<and> calculate_popularity d = Inr (popularity e)
     \<and> extract_variants L d = Inr (variants e)"
  using assms by (auto simp: map_fields_def Let_def bind_Inr_iff)

lemma transform_fields_SomeD:
  assumes "transform_fields L d = Inr (Some e)"
  shows "map_of d ''family_name'' = Some (JStr (family e)) \<and> family e \<noteq> []
     \<and> map_fields L d (family e) = Inr (Some e)"
proof -
  let ?fn = "dict_get d ''family_name'' (JStr [])"
  have "\<exists>fam. ?fn = JStr fam \<and> fam \<noteq> [] \<and> map_fields L d fam = Inr (Some e)"
    using assms by (cases ?fn) (simp_all add: transform_fields_def split: if_split_asm)
  then obtain fam where fam: "?fn = JStr fam" "fam \<noteq> []" "map_fields L d fam = Inr (Some e)"
    by blast
  from fam(3) have "family e = fam" by (simp add: map_fields_SomeD)
  moreover from fam(1,2) have "map_of d ''family_name'' = Some (JStr fam)"
    by (auto simp: dict_get_def split: option.splits)
  ultimately show ?thesis using fam by simp
qed

lemma transform_font_SomeD:
  assumes "transform_font L r = Inr (Some e)"
  shows "\<exists>d. r = JObj d \<and> transform_fields L d = Inr (Some e)"
  using assms by (cases r) (auto simp: transform_font_def split: sum.splits)

lemma transformed_Some_iff:
  "transformed L r = Some e \<longleftrightarrow> transform_font L r = Inr (Some e)"
  by (auto simp: transformed_def split: sum.splits option.splits)

lemma translate_step_Some:
  assumes "transformed L r = Some e"
  shows "translate_step L st r =
           st\<lparr>acc_fonts := AList.update (entry_key e) e (acc_fonts st),
              processed := processed st + 1\<rparr>"
proof -
  from assms have tf: "transform_font L r = Inr (Some e)" by (simp add: transformed_Some_iff)
  then obtain d where d: "r = JObj d" "transform_fields L d = Inr (Some e)"
    using transform_font_SomeD by blast
  from d(2) have fam: "map_of d ''family_name'' = Some (JStr (family e))"
    by (simp add: transform_fields_SomeD)
  from tf d(1) have tf': "transform_font L (JObj d) = Inr (Some e)" by simp
  show ?thesis
    by (simp add: translate_step_def tf' d(1) get_item_def fam bind_def str_lower_def
        entry_key_def font_id_def)
qed

lemma translate_step_None:
  assumes "transformed L r = None"
  shows "translate_step L st r = st\<lparr>skipped := skipped st + 1\<rparr>"
  using assms
  by (auto simp: translate_step_def transformed_def split: sum.splits option.splits)

lemma length_successes_le: "length (successes L rs) \<le> length rs"
  by (induction rs) (auto simp: successes_def split: option.splits)

lemma successes_append: "successes L (xs @ ys) = successes L xs @ successes L ys"
  by (induction xs) (auto simp: successes_def split: option.splits)

lemma foldl_translate_step:
  "foldl (translate_step L) st rs =
     st\<lparr>acc_fonts := foldl (\<lambda>al e. AList.update (entry_key e) e al) (acc_fonts st)
                       (successes L rs),
        processed := processed st + length (successes L rs),
        skipped := skipped st + (length rs - length (successes L rs))\<rparr>"
proof (induction rs arbitrary: st)
  case Nil
  show ?case by (simp add: successes_def)
next
  case (Cons r rs)
  show ?case
  proof (cases "transformed L r")
    case None
    have le: "length (successes L rs) \<le> length rs" by (rule length_successes_le)
    from None have s: "successes L (r # rs) = successes L rs" by (simp add: successes_def)
    show ?thesis
      using le by (simp add: Cons.IH translate_step_None [OF None] s Suc_diff_le)
  next
    case (Some e)
    then have s: "successes L (r # rs) = e # successes L rs" by (simp add: successes_def)
    show ?thesis
      by (simp add: Cons.IH translate_step_Some [OF Some] s)
  qed
qed

lemma translate_loop_eq:
  "translate_loop L rs =
     \<lparr>acc_fonts = foldl (\<lambda>al e. AList.update (entry_key e) e al) [] (successes L rs),
      processed = length (successes L rs),
      skipped = length rs - length (successes L rs)\<rparr>"
  by (simp add: translate_loop_def foldl_translate_step)

lemma translate_eq:
  "translate L now rs =
     \<lparr>info = header now (length (acc_fonts (translate_loop L rs))),
      fonts = acc_fonts (translate_loop L rs)\<rparr>"
  by (cases rs) (simp_all add: translate_def create_empty_source_def translate_loop_def Let_def)

lemma keys_foldl_update:
  "set (map fst (foldl (\<lambda>al e. AList.update (f e) e al) al es)) = set (map fst al) \<union> f ` set es"
  by (induction es arbitrary: al) (auto simp: dom_update)

lemma distinct_foldl_update:
  "distinct (map fst al) \<Longrightarrow> distinct (map fst (foldl (\<lambda>al e. AList.update (f e) e al) al es))"
  by (induction es arbitrary: al) (auto simp: distinct_update)

lemma map_of_foldl_update:
  "map_of (foldl (\<lambda>al e. AList.update (f e) e al) al es)
   = map_of al ++ map_of (rev (map (\<lambda>e. (f e, e)) es))"
proof (induction es arbitrary: al)
  case Nil
  show ?case by simp
next
  case (Cons e es)
  let ?M = "map_of (rev (map (\<lambda>e. (f e, e)) es))"
  have "map_of (foldl (\<lambda>al e. AList.update (f e) e al) al (e # es))
        = map_of (AList.update (f e) e al) ++ ?M"
    by (simp add: Cons.IH)
  also have "\<dots> = (map_of al ++ [f e \<mapsto> e]) ++ ?M"
    by (simp add: update_conv')
  also have "\<dots> = map_of al ++ ([f e \<mapsto> e] ++ ?M)"
    by (simp only: map_add_assoc)
  also have "\<dots> = map_of al ++ map_of (rev (map (\<lambda>e. (f e, e)) (e # es)))"
    by simp
  finally show ?case .
qed

lemma length_acc_fonts:
  "length (acc_fonts (translate_loop L rs)) = card (entry_key ` set (successes L rs))"
proof -
  let ?al = "foldl (\<lambda>al e. AList.update (entry_key e) e al) [] (successes L rs)"
  have "distinct (map fst ?al)" by (rule distinct_foldl_update) simp
  then have "card (set (map fst ?al)) = length (map fst ?al)" by (rule distinct_card)
  then show ?thesis by (simp add: translate_loop_eq keys_foldl_update del: set_map)
qed

section \<open>The header count\<close>

text \<open>
  A record that carries a non-empty family name and nothing else is transformed, for any
  library parameters; the concrete runs below are built from such records.
\<close>

lemma family_only_transformed:
  "fam \<noteq> [] \<Longrightarrow>
   \<exists>e. transformed L (JObj [(''family_name'', JStr fam)]) = Some e \<and> family e = fam"
  by (simp add: transformed_def transform_font_def transform_fields_def map_fields_def
      dict_get_def get_def bind_def str_lower_def extract_variants_def
      calculate_popularity_def py_len_def extract_unicode_ranges_def extract_languages_def
      classification_name_def Let_def)

text \<open>
  C2, as stated, fails: two records with the same family name are both transformed, and
  the header says \<^verbatim>\<open>total_fonts = 1\<close>, since the second entry takes the place of the first
  under the same key.
\<close>

theorem duplicate_family_counted_once:
  "total_fonts (info (translate toy_lib ''2024-01-02T03:04:05''
      [JObj [(''family_name'', JStr ''Open Sans'')],
       JObj [(''family_name'', JStr ''Open Sans'')]])) = 1
   \<and> length (successes toy_lib
      [JObj [(''family_name'', JStr ''Open Sans'')],
       JObj [(''family_name'', JStr ''Open Sans'')]]) = 2"
proof -
  obtain e where e: "transformed toy_lib (JObj [(''family_name'', JStr ''Open Sans'')]) = Some e"
    using family_only_transformed [of "''Open Sans''" toy_lib] by auto
  then have s: "successes toy_lib
      [JObj [(''family_name'', JStr ''Open Sans'')],
       JObj [(''family_name'', JStr ''Open Sans'')]] = [e, e]"
    by (simp add: successes_def)
  show ?thesis
    by (simp add: translate_eq header_def length_acc_fonts s)
qed

text \<open>
  C2, amended: \<^verbatim>\<open>total_fonts\<close> is the number of entries of the output mapping, which is the
  number of distinct keys among the successfully transformed records; it equals the
  number of successfully transformed records when their keys are pairwise distinct.
\<close>

theorem total_fonts_counts_distinct_keys:
  "total_fonts (info (translate L now raw_fonts))
     = card (entry_key ` set (successes L raw_fonts))
   \<and> total_fonts (info (translate L now raw_fonts)) = length (fonts (translate L now raw_fonts))
   \<and> (distinct (map entry_key (successes L raw_fonts)) \<longrightarrow>
        total_fonts (info (translate L now raw_fonts)) = length (successes L raw_fonts))"
proof -
  have t: "total_fonts (info (translate L now raw_fonts))
           = card (entry_key ` set (successes L raw_fonts))"
    by (simp add: translate_eq header_def length_acc_fonts)
  have l: "total_fonts (info (translate L now raw_fonts))
           = length (fonts (translate L now raw_fonts))"
    by (simp add: translate_eq header_def)
  have d: "total_fonts (info (translate L now raw_fonts)) = length (successes L raw_fonts)"
    if "distinct (map entry_key (successes L raw_fonts))"
    using distinct_card [OF that] t by simp
  from t l d show ?thesis by blast
qed

theorem total_fonts_counts_distinct_keys_witness:
  "distinct (map entry_key (successes toy_lib
      [JObj [(''family_name'', JStr ''Open Sans'')], JNull,
       JObj [(''family_name'', JStr ''Lato'')]]))
   \<and> total_fonts (info (translate toy_lib ''2024-01-02T03:04:05''
      [JObj [(''family_name'', JStr ''Open Sans'')], JNull,
       JObj [(''family_name'', JStr ''Lato'')]])) = 2
   \<and> length (successes toy_lib
      [JObj [(''family_name'', JStr ''Open Sans'')], JNull,
       JObj [(''family_name'', JStr ''Lato'')]]) = 2"
proof -
  let ?rs = "[JObj [(''family_name'', JStr ''Open Sans'')], JNull,
       JObj [(''family_name'', JStr ''Lato'')]]"
  obtain e1 where e1: "transformed toy_lib (JObj [(''family_name'', JStr ''Open Sans'')]) = Some e1"
      "family e1 = ''Open Sans''"
    using family_only_transformed [of "''Open Sans''" toy_lib] by auto
  obtain e2 where e2: "transformed toy_lib (JObj [(''family_name'', JStr ''Lato'')]) = Some e2"
      "family e2 = ''Lato''"
    using family_only_transformed [of "''Lato''" toy_lib] by auto
  have n: "transformed toy_lib JNull = None"
    by (simp add: transformed_def transform_font_def)
  have s: "successes toy_lib ?rs = [e1, e2]"
    by (simp add: successes_def e1 e2 n)
  have dk: "distinct (map entry_key (successes toy_lib ?rs))"
    by (simp add: s entry_key_def e1 e2 font_id_def str_eval)
  from total_fonts_counts_distinct_keys [of toy_lib "''2024-01-02T03:04:05''" ?rs] dk s
  show ?thesis by simp
qed

section \<open>Records without a family name\<close>

lemma transformed_None_if_falsy:
  assumes "\<not> truthy (dict_get d ''family_name'' (JStr []))"
  shows "transform_font L (JObj d) = Inr None"
  using assms by (simp add: transform_font_def transform_fields_def)

lemma fonts_translate:
  "fonts (translate L now rs)
   = foldl (\<lambda>al e. AList.update (entry_key e) e al) [] (successes L rs)"
  by (simp add: translate_eq translate_loop_eq)

text \<open>
  C7: a record whose \<^verbatim>\<open>family_name\<close> is missing or the empty string is transformed to
  \<^verbatim>\<open>None\<close>, and it leaves no trace in the output document: the document of a fetched
  sequence that contains such a record is the document of the sequence without it.
\<close>

theorem missing_family_name_dropped:
  assumes "map_of d ''family_name'' = None \<or> map_of d ''family_name'' = Some (JStr [])"
  shows "transform_font L (JObj d) = Inr None
     \<and> translate L now (xs @ JObj d # ys) = translate L now (xs @ ys)"
proof -
  from assms have falsy: "\<not> truthy (dict_get d ''family_name'' (JStr []))"
    by (auto simp: dict_get_def)
  then have none: "transform_font L (JObj d) = Inr None"
    by (rule transformed_None_if_falsy)
  then have "transformed L (JObj d) = None" by (simp add: transformed_def)
  then have "successes L (xs @ JObj d # ys) = successes L (xs @ ys)"
    by (simp add: successes_append) (simp add: successes_def)
  then have "translate L now (xs @ JObj d # ys) = translate L now (xs @ ys)"
    by (simp add: translate_eq translate_loop_eq)
  with none show ?thesis by simp
qed

theorem missing_family_name_dropped_witness:
  "map_of [(''family_name'', JStr []), (''designer'', JStr ''Jane'')] ''family_name''
     = Some (JStr [])
   \<and> transform_font toy_lib (JObj [(''family_name'', JStr []), (''designer'', JStr ''Jane'')])
     = Inr None
   \<and> translate toy_lib ''2024-01-02T03:04:05''
       ([test_font_record] @ JObj [(''family_name'', JStr []), (''designer'', JStr ''Jane'')] # [])
     = translate toy_lib ''2024-01-02T03:04:05'' ([test_font_record] @ [])"
  using missing_family_name_dropped
    [of "[(''family_name'', JStr []), (''designer'', JStr ''Jane'')]" toy_lib
        "''2024-01-02T03:04:05''" "[test_font_record]" "[]"]
  by simp

section \<open>Records with the same key\<close>

text \<open>
  C10: the processed counter counts every successful transform; of the successfully
  transformed records with one key, the output mapping holds the entry of the last;
  \<^verbatim>\<open>total_fonts\<close> never exceeds the processed counter and is strictly smaller as soon as two
  successfully transformed records share a key.
\<close>

theorem duplicate_keys_last_wins:
  "processed (translate_loop L raw_fonts) = length (successes L raw_fonts)
   \<and> (\<forall>es1 e es2. successes L raw_fonts = es1 @ e # es2
          \<and> entry_key e \<notin> entry_key ` set es2
        \<longrightarrow> map_of (fonts (translate L now raw_fonts)) (entry_key e) = Some e)
   \<and> total_fonts (info (translate L now raw_fonts)) \<le> processed (translate_loop L raw_fonts)
   \<and> (\<not> distinct (map entry_key (successes L raw_fonts)) \<longrightarrow>
        total_fonts (info (translate L now raw_fonts)) < processed (translate_loop L raw_fonts))"
proof -
  let ?es = "successes L raw_fonts"
  have p: "processed (translate_loop L raw_fonts) = length ?es"
    by (simp add: translate_loop_eq)
  have t: "total_fonts (info (translate L now raw_fonts)) = card (set (map entry_key ?es))"
    by (simp add: translate_eq header_def length_acc_fonts)
  have last: "map_of (fonts (translate L now raw_fonts)) (entry_key e) = Some e"
    if "?es = es1 @ e # es2" "entry_key e \<notin> entry_key ` set es2" for es1 e es2
  proof -
    have "map_of (rev (map (\<lambda>e. (entry_key e, e)) es2)) (entry_key e) = None"
      using that(2) by (simp add: map_of_eq_None_iff image_comp)
    then show ?thesis
      by (simp add: fonts_translate map_of_foldl_update that(1) map_add_def update_conv')
  qed
  have le: "total_fonts (info (translate L now raw_fonts)) \<le> processed (translate_loop L raw_fonts)"
    using card_length [of "map entry_key ?es"] by (simp add: p t)
  have lt: "total_fonts (info (translate L now raw_fonts)) < processed (translate_loop L raw_fonts)"
    if "\<not> distinct (map entry_key ?es)"
  proof -
    have "card (set (map entry_key ?es)) \<noteq> length (map entry_key ?es)"
      using that card_distinct by blast
    with le show ?thesis by (simp add: p t)
  qed
  from p last le lt show ?thesis by blast
qed

theorem duplicate_keys_last_wins_witness:
  "\<not> distinct (map entry_key (successes toy_lib
      [JObj [(''family_name'', JStr ''Open Sans'')],
       JObj [(''family_name'', JStr ''open_sans'')]]))
   \<and> total_fonts (info (translate toy_lib ''2024-01-02T03:04:05''
      [JObj [(''family_name'', JStr ''Open Sans'')],
       JObj [(''family_name'', JStr ''open_sans'')]])) = 1
   \<and> processed (translate_loop toy_lib
      [JObj [(''family_name'', JStr ''Open Sans'')],
       JObj [(''family_name'', JStr ''open_sans'')]]) = 2
   \<and> map_option family (map_of (fonts (translate toy_lib ''2024-01-02T03:04:05''
      [JObj [(''family_name'', JStr ''Open Sans'')],
       JObj [(''family_name'', JStr ''open_sans'')]])) ''squirrel.open-sans'')
     = Some ''open_sans''"
proof -
  let ?rs = "[JObj [(''family_name'', JStr ''Open Sans'')],
       JObj [(''family_name'', JStr ''open_sans'')]]"
  let ?now = "''2024-01-02T03:04:05''"
  obtain e1 where e1: "transformed toy_lib (JObj [(''family_name'', JStr ''Open Sans'')]) = Some e1"
      "family e1 = ''Open Sans''"
    using family_only_transformed [of "''Open Sans''" toy_lib] by auto
  obtain e2 where e2: "transformed toy_lib (JObj [(''family_name'', JStr ''open_sans'')]) = Some e2"
      "family e2 = ''open_sans''"
    using family_only_transformed [of "''open_sans''" toy_lib] by auto
  have s: "successes toy_lib ?rs = [e1, e2]"
    by (simp add: successes_def e1 e2)
  have k1: "entry_key e1 = ''squirrel.open-sans''" and k2: "entry_key e2 = ''squirrel.open-sans''"
    by (simp_all add: entry_key_def e1 e2 font_id_def str_eval)
  have nd: "\<not> distinct (map entry_key (successes toy_lib ?rs))"
    by (simp add: s k1 k2)
  note T = duplicate_keys_last_wins [of toy_lib ?rs ?now]
  from T have p: "processed (translate_loop toy_lib ?rs) = 2" by (simp add: s)
  from T nd have lt: "total_fonts (info (translate toy_lib ?now ?rs)) < 2" using p by simp
  have "total_fonts (info (translate toy_lib ?now ?rs)) = card (entry_key ` set [e1, e2])"
    by (simp add: translate_eq header_def length_acc_fonts s)
  then have one: "total_fonts (info (translate toy_lib ?now ?rs)) = 1"
    by (simp add: k1 k2)
  from T have "map_of (fonts (translate toy_lib ?now ?rs)) (entry_key e2) = Some e2"
    using s by (metis append_Cons append_Nil empty_iff image_empty list.set(1))
  then have m: "map_option family (map_of (fonts (translate toy_lib ?now ?rs)) ''squirrel.open-sans'')
                = Some ''open_sans''"
    by (simp add: k2 e2)
  from nd one p m show ?thesis by simp
qed

text \<open>
  The same holds for a Latin-1 capital and its small letter: the two names are lowered to
  one key, both records are processed and one entry is stored.
\<close>

lemma latin1_capital_collides:
  "total_fonts (info (translate toy_lib ''2024-01-02T03:04:05''
      [JObj [(''family_name'', JStr [CHR 0xC9])],
       JObj [(''family_name'', JStr [CHR 0xE9])]])) = 1
   \<and> processed (translate_loop toy_lib
      [JObj [(''family_name'', JStr [CHR 0xC9])],
       JObj [(''family_name'', JStr [CHR 0xE9])]]) = 2"
proof -
  let ?rs = "[JObj [(''family_name'', JStr [CHR 0xC9])],
       JObj [(''family_name'', JStr [CHR 0xE9])]]"
  obtain e1 where e1: "transformed toy_lib (JObj [(''family_name'', JStr [CHR 0xC9])]) = Some e1"
      "family e1 = [CHR 0xC9]"
    using family_only_transformed [of "[CHR 0xC9]" toy_lib] by auto
  obtain e2 where e2: "transformed toy_lib (JObj [(''family_name'', JStr [CHR 0xE9])]) = Some e2"
      "family e2 = [CHR 0xE9]"
    using family_only_transformed [of "[CHR 0xE9]" toy_lib] by auto
  have s: "successes toy_lib ?rs = [e1, e2]"
    by (simp add: successes_def e1 e2)
  have k: "entry_key e1 = entry_key e2"
    by (simp add: entry_key_def e1 e2 font_id_latin1_capital)
  show ?thesis
    by (simp add: translate_eq header_def length_acc_fonts translate_loop_eq s k)
qed

section \<open>The last-modified field\<close>

text \<open>
  No step of the field mapper other than the \<^verbatim>\<open>last_modified\<close> block reads \<^verbatim>\<open>updated_at\<close>:
  two records that agree on every other key are transformed alike, up to that field.
\<close>

lemma map_sum_bind:
  "map_sum id g (bind m f) = bind m (\<lambda>x. map_sum id g (f x))"
  by (cases m) (simp_all add: bind_def)

lemma extract_variants_agree:
  assumes "\<And>k dflt. k \<noteq> ''updated_at'' \<Longrightarrow> dict_get d' k dflt = dict_get d k dflt"
  shows "extract_variants L d' = extract_variants L d"
proof -
  have pv: "pattern_variant L d' fam = pattern_variant L d fam" for fam
    by (rule ext) (simp add: pattern_variant_def assms split: prod.splits)
  have fn: "dict_get d' ''family_name'' (JStr []) = dict_get d ''family_name'' (JStr [])"
    and ff: "dict_get d' ''font_files'' (JList []) = dict_get d ''font_files'' (JList [])"
    by (simp_all add: assms)
  show ?thesis
    by (simp add: extract_variants_def Let_def fn ff pv cong: if_cong split: json.splits)
qed

lemma calculate_popularity_agree:
  assumes "\<And>k dflt. k \<noteq> ''updated_at'' \<Longrightarrow> dict_get d' k dflt = dict_get d k dflt"
  shows "calculate_popularity d' = calculate_popularity d"
  by (simp add: calculate_popularity_def assms)

lemma classification_name_agree:
  assumes "\<And>k dflt. k \<noteq> ''updated_at'' \<Longrightarrow> dict_get d' k dflt = dict_get d k dflt"
  shows "classification_name d' = classification_name d"
  by (simp add: classification_name_def assms)

lemma map_fields_agree:
  assumes "\<And>k dflt. k \<noteq> ''updated_at'' \<Longrightarrow> dict_get d' k dflt = dict_get d k dflt"
  shows "map_fields L d' fam =
           map_sum id
             (map_option (\<lambda>e. e\<lparr>last_modified :=
                parse_last_modified L (dict_get d' ''updated_at'' (JStr []))\<rparr>))
             (map_fields L d fam)"
  by (simp add: map_fields_def Let_def map_sum_bind assms
      extract_variants_agree [of d' d, OF assms] calculate_popularity_agree [of d' d, OF assms]
      extract_unicode_ranges_def extract_languages_def
      classification_name_agree [of d' d, OF assms])

lemma transform_fields_agree:
  assumes "\<And>k dflt. k \<noteq> ''updated_at'' \<Longrightarrow> dict_get d' k dflt = dict_get d k dflt"
  shows "transform_fields L d' =
           map_sum id
             (map_option (\<lambda>e. e\<lparr>last_modified :=
                parse_last_modified L (dict_get d' ''updated_at'' (JStr []))\<rparr>))
             (transform_fields L d)"
proof -
  have fn: "dict_get d' ''family_name'' (JStr []) = dict_get d ''family_name'' (JStr [])"
    by (simp add: assms)
  show ?thesis
    by (cases "dict_get d ''family_name'' (JStr [])")
      (simp_all add: transform_fields_def fn map_fields_agree [of d' d, OF assms])
qed

lemma transform_font_updated_at:
  "transform_font L (JObj ((''updated_at'', v) # d)) =
     map_sum id (map_option (\<lambda>e. e\<lparr>last_modified := parse_last_modified L v\<rparr>))
       (transform_font L (JObj d))"
proof -
  have agree: "dict_get ((''updated_at'', v) # d) k dflt = dict_get d k dflt"
    if "k \<noteq> ''updated_at''" for k dflt
    using that by (simp add: dict_get_def)
  have "transform_fields L ((''updated_at'', v) # d) =
           map_sum id
             (map_option (\<lambda>e. e\<lparr>last_modified := parse_last_modified L v\<rparr>))
             (transform_fields L d)"
    using transform_fields_agree [of "(''updated_at'', v) # d" d L, OF agree]
    by (simp add: dict_get_def)
  then show ?thesis
    by (cases "transform_fields L d") (auto simp: transform_font_def split: option.splits)
qed

text \<open>
  C8, as stated, fails: only a truthy \<^verbatim>\<open>updated_at\<close> is parsed, and a falsy one is kept as
  it is. For \<^verbatim>\<open>updated_at: null\<close> the entry's \<^verbatim>\<open>last_modified\<close> is \<^verbatim>\<open>None\<close>, not the empty
  string.
\<close>

theorem null_updated_at_kept:
  "map_option last_modified
     (transformed toy_lib (JObj [(''updated_at'', JNull), (''family_name'', JStr ''Lato'')]))
   = Some JNull"
proof -
  obtain e where e: "transformed toy_lib (JObj [(''family_name'', JStr ''Lato'')]) = Some e"
    using family_only_transformed [of "''Lato''" toy_lib] by auto
  then have "transform_font toy_lib (JObj [(''family_name'', JStr ''Lato'')]) = Inr (Some e)"
    by (simp add: transformed_Some_iff)
  then have "transform_font toy_lib
               (JObj [(''updated_at'', JNull), (''family_name'', JStr ''Lato'')])
             = Inr (Some (e\<lparr>last_modified := parse_last_modified toy_lib JNull\<rparr>))"
    by (simp add: transform_font_updated_at)
  then show ?thesis
    by (simp add: transformed_def parse_last_modified_def)
qed

text \<open>
  C8, amended: for every record that is transformed, \<^verbatim>\<open>last_modified\<close> is the empty
  string when \<^verbatim>\<open>updated_at\<close> is missing, and when \<^verbatim>\<open>updated_at\<close> is truthy and either is
  not a string or does not parse (each \<^verbatim>\<open>Z\<close> read as \<^verbatim>\<open>+00:00\<close>); a falsy \<^verbatim>\<open>updated_at\<close>
  (the empty string, \<^verbatim>\<open>null\<close>, \<^verbatim>\<open>false\<close>, 0, an empty list or object) is passed through
  unchanged. What is stored after a successful parse is not part of the statement. No
  value of \<^verbatim>\<open>updated_at\<close> decides whether the record is dropped: giving a record the field
  \<^verbatim>\<open>updated_at\<close> with any value changes its result in the \<^verbatim>\<open>last_modified\<close> field only.
\<close>

theorem last_modified_of_updated_at:
  "(\<forall>e. transform_font L (JObj d) = Inr (Some e) \<longrightarrow>
      (case map_of d ''updated_at'' of
         None \<Rightarrow> last_modified e = JStr []
       | Some u \<Rightarrow>
           if truthy u then
             (case u of
                JStr s \<Rightarrow>
                  fromisoformat L (replace_str CHR ''Z'' ''+00:00'' s) = None
                  \<longrightarrow> last_modified e = JStr []
              | _ \<Rightarrow> last_modified e = JStr [])
           else last_modified e = u))
   \<and> (\<exists>x. transform_font L (JObj ((''updated_at'', v) # d)) =
          map_sum id (map_option (\<lambda>e. e\<lparr>last_modified := x\<rparr>))
            (transform_font L (JObj d)))"
proof -
  have lm: "(case map_of d ''updated_at'' of
         None \<Rightarrow> last_modified e = JStr []
       | Some u \<Rightarrow>
           if truthy u then
             (case u of
                JStr s \<Rightarrow>
                  fromisoformat L (replace_str CHR ''Z'' ''+00:00'' s) = None
                  \<longrightarrow> last_modified e = JStr []
              | _ \<Rightarrow> last_modified e = JStr [])
           else last_modified e = u)"
    if "transform_font L (JObj d) = Inr (Some e)" for e
  proof -
    from that have "transform_fields L d = Inr (Some e)"
      using transform_font_SomeD by blast
    then have "map_fields L d (family e) = Inr (Some e)"
      by (simp add: transform_fields_SomeD)
    then have "last_modified e = parse_last_modified L (dict_get d ''updated_at'' (JStr []))"
      by (simp add: map_fields_SomeD)
    then show ?thesis
      by (simp add: parse_last_modified_def dict_get_def split: option.splits json.splits)
  qed
  from lm transform_font_updated_at [of L v d] show ?thesis by blast
qed

theorem last_modified_of_updated_at_witness:
  "map_option last_modified
     (transformed toy_lib
        (JObj [(''updated_at'', JStr ''yesterday''), (''family_name'', JStr ''Lato'')]))
   = Some (JStr [])"
proof -
  let ?d = "[(''updated_at'', JStr ''yesterday''), (''family_name'', JStr ''Lato'')]"
  obtain e where e: "transformed toy_lib (JObj [(''family_name'', JStr ''Lato'')]) = Some e"
    using family_only_transformed [of "''Lato''" toy_lib] by auto
  then have tf: "transform_font toy_lib (JObj [(''family_name'', JStr ''Lato'')]) = Inr (Some e)"
    by (simp add: transformed_Some_iff)
  note T1 = last_modified_of_updated_at
    [where L = toy_lib and d = "[(''family_name'', JStr ''Lato'')]"
       and v = "JStr ''yesterday''"]
  note T2 = last_modified_of_updated_at [where L = toy_lib and d = ?d and v = JNull]
  from T1 tf obtain e' where e': "transform_font toy_lib (JObj ?d) = Inr (Some e')"
    by auto
  with T2 have "last_modified e' = JStr []"
    by (simp add: toy_lib_def replace_str_def)
  with e' show ?thesis by (simp add: transformed_def)
qed

end
